theory Spec2Isabelle
  imports Complex_Main "HOL-Library.Word"
begin

section \<open>Data model of the two sweep drivers\<close>

text \<open>
  The repository holds two ns-3 drivers, \<^verbatim>\<open>wifi-propagation-comparison.cc\<close> (the distance
  sweep) and \<^verbatim>\<open>wifi-runtime-comparison.cc\<close> (the runtime sweep).  Both are a single
  \<^verbatim>\<open>main\<close> around one global variable and one trace callback.

  Conventions of the embedding:
  \<^item> a C++ \<^verbatim>\<open>double\<close> is a \<^typ>\<open>real\<close>: arithmetic is exact, binary64 rounding and the
    six-digit text rendering of \<^verbatim>\<open>operator<<\<close> are not modelled;
  \<^item> a \<^verbatim>\<open>uint64_t\<close> is a \<^typ>\<open>64 word\<close>;
  \<^item> ns-3 itself is not part of the repository.  One call of \<^verbatim>\<open>Simulator::Run\<close> is a
    parameter of the model: a function from the configured scenario to the sequence of
    \<^verbatim>\<open>MonitorSnifferRx\<close> callbacks it fires and to the flow statistics it leaves behind.
\<close>

datatype PropagationModel = FRIIS | FIXED_RSS | THREE_LOG_DISTANCE | TWO_RAY_GROUND | NAKAGAMI

fun propagationModelToString :: "PropagationModel \<Rightarrow> string" where
  "propagationModelToString FRIIS = ''Friis''"
| "propagationModelToString FIXED_RSS = ''FixedRSS''"
| "propagationModelToString THREE_LOG_DISTANCE = ''ThreeLogDistance''"
| "propagationModelToString TWO_RAY_GROUND = ''TwoRayGround''"
| "propagationModelToString NAKAGAMI = ''Nakagami''"

definition modelsToBeExamined :: "PropagationModel list" where
  "modelsToBeExamined = [FRIIS, FIXED_RSS, THREE_LOG_DISTANCE, TWO_RAY_GROUND, NAKAGAMI]"

text \<open>The argument of the trace callback that the callback reads.\<close>

record SignalNoiseDbm =
  signal :: real
  noise :: real

text \<open>One entry of \<^verbatim>\<open>FlowMonitor::FlowStatsContainer\<close>; only \<^verbatim>\<open>rxBytes\<close> is read.\<close>

record FlowStats =
  rxBytes :: "64 word"

text \<open>
  One \<^verbatim>\<open>AddPropagationLoss\<close> call: the ns-3 type name and its attribute values.
\<close>

type_synonym LossConfig = "string \<times> (string \<times> real) list"

text \<open>
  What a driver hands to ns-3 for one run, as far as it varies or is computed: the loss
  models added to the channel, the x position of node 1, the stop time, and the three
  attributes of the UDP client.
\<close>

record LinkScenario =
  PropagationLoss :: "LossConfig list"
  Position :: real
  StopTime :: real
  MaxPackets :: "64 word"
  Interval :: real
  PacketSize :: "64 word"

text \<open>What one \<^verbatim>\<open>Simulator::Run\<close> produces: the callbacks in firing order and the flow table.\<close>

record RunOutcome =
  frames :: "SignalNoiseDbm list"
  flowStats :: "FlowStats list"

type_synonym simulator = "LinkScenario \<Rightarrow> RunOutcome"

text \<open>One line \<^verbatim>\<open>coordinate,rss,throughput,\<close> of an output file, as the three values streamed.\<close>

record Row =
  coordinate :: real
  rssDBm :: real
  throughputKbps :: real

record CsvFile =
  fileName :: string
  header :: string
  rows :: "Row list"

text \<open>
  \<^verbatim>\<open>outputFile.open(name)\<close> followed by the header: the file is truncated.
  \<^verbatim>\<open>outputFile.open(name, std::ios_base::app)\<close> followed by one row: the row goes to the end.
\<close>

definition create_file :: "string \<Rightarrow> string \<Rightarrow> CsvFile" where
  "create_file name hd_line = \<lparr>fileName = name, header = hd_line, rows = []\<rparr>"

definition append_row :: "Row \<Rightarrow> CsvFile \<Rightarrow> CsvFile" where
  "append_row r f = f\<lparr>rows := rows f @ [r]\<rparr>"

text \<open>
  The mutable state of a sweep: the global \<^verbatim>\<open>averageRSS\<close>, the local flag
  \<^verbatim>\<open>connectionPossible\<close> and the output file.
\<close>

record SweepState =
  averageRSS :: real
  connectionPossible :: bool
  outputFile :: CsvFile

section \<open>The trace callback\<close>

text \<open>\<^verbatim>\<open>averageRSS = (signalNoise.signal + averageRSS) / 2.;\<close>\<close>

definition PhyTrace :: "SignalNoiseDbm \<Rightarrow> real \<Rightarrow> real" where
  "PhyTrace signalNoise avg = (signal signalNoise + avg) / 2"

text \<open>
  \<^verbatim>\<open>Simulator::Run()\<close> as far as the driver's own state goes: every received frame calls
  \<^const>\<open>PhyTrace\<close>, in order.
\<close>

definition Simulator_Run :: "SignalNoiseDbm list \<Rightarrow> real \<Rightarrow> real" where
  "Simulator_Run fs avg = foldl (\<lambda>a f. PhyTrace f a) avg fs"

section \<open>Simulation parameters\<close>

definition dataRate :: real where
  "dataRate = 75000000"

definition packetSize :: "64 word" where
  "packetSize = 1450"

text \<open>
  \<^verbatim>\<open>const double interval = 1 / (dataRate / (packetSize * 8));\<close>: the product is taken in
  \<^verbatim>\<open>uint64_t\<close> and converted.
\<close>

definition interval :: real where
  "interval = 1 / (dataRate / real (unat (packetSize * 8)))"

text \<open>
  Conversion of a \<^verbatim>\<open>double\<close> to \<^verbatim>\<open>uint64_t\<close>: the fractional part is discarded.  (C++ leaves
  the conversion undefined outside the range of the target; the drivers stay far inside.)
\<close>

definition double_to_uint64 :: "real \<Rightarrow> 64 word" where
  "double_to_uint64 x = word_of_int (if 0 \<le> x then \<lfloor>x\<rfloor> else \<lceil>x\<rceil>)"

text \<open>\<^verbatim>\<open>const uint64_t packetLimit = simulationTime / interval;\<close>\<close>

definition packetLimit :: "real \<Rightarrow> 64 word" where
  "packetLimit duration = double_to_uint64 (duration / interval)"

definition antennaZ :: real where
  "antennaZ = 1.5"

text \<open>
  The \<^verbatim>\<open>switch (model)\<close> of the distance driver: the \<^verbatim>\<open>AddPropagationLoss\<close> calls it makes.
\<close>

fun AddPropagationLoss :: "PropagationModel \<Rightarrow> LossConfig list" where
  "AddPropagationLoss FRIIS =
     [(''ns3::FriisPropagationLossModel'',
       [(''Frequency'', 5180000000), (''SystemLoss'', 1)])]"
| "AddPropagationLoss FIXED_RSS =
     [(''ns3::FixedRssLossModel'', [(''Rss'', - 75)])]"
| "AddPropagationLoss THREE_LOG_DISTANCE =
     [(''ns3::ThreeLogDistancePropagationLossModel'',
       [(''Distance0'', 1), (''Distance1'', 100), (''Distance2'', 500),
        (''ReferenceLoss'', 46.77)])]"
| "AddPropagationLoss TWO_RAY_GROUND =
     [(''ns3::TwoRayGroundPropagationLossModel'',
       [(''Frequency'', 5180000000), (''MinDistance'', 0.5), (''SystemLoss'', 1),
        (''HeightAboveZ'', antennaZ)])]"
| "AddPropagationLoss NAKAGAMI =
     [(''ns3::NakagamiPropagationLossModel'',
       [(''Distance1'', 80), (''Distance2'', 200), (''m0'', 1.5), (''m1'', 0.75),
        (''m2'', 0.75)])]"

section \<open>One run\<close>

text \<open>
  The loop over the flow table that ends each run in both drivers (\<^verbatim>\<open>c\<close> is the value
  written to the first column, \<^verbatim>\<open>duration\<close> the divisor of the throughput):
  \<^verbatim>\<open>
  for (auto it = stats.begin(); it != stats.end(); ++it) {
      double throughput = it->second.rxBytes * 8.0 / (simulationTime) / 1024;
      outputFile.open(outputFileName, std::ios_base::app);
      outputFile << d << "," << averageRSS << "," << throughput << "," << std::endl;
      outputFile.close();
      if (it->second.rxBytes == 0) connectionPossible = false;
  }\<close>
\<close>

definition flow_step :: "real \<Rightarrow> real \<Rightarrow> FlowStats \<Rightarrow> SweepState \<Rightarrow> SweepState" where
  "flow_step c duration it s =
     (let throughput = real (unat (rxBytes it)) * 8 / duration / 1024;
          s' = s\<lparr>outputFile := append_row
                 \<lparr>coordinate = c, rssDBm = averageRSS s, throughputKbps = throughput\<rparr>
                 (outputFile s)\<rparr>
      in if rxBytes it = 0 then s'\<lparr>connectionPossible := False\<rparr> else s')"

primrec flow_loop :: "real \<Rightarrow> real \<Rightarrow> FlowStats list \<Rightarrow> SweepState \<Rightarrow> SweepState" where
  "flow_loop c duration [] s = s"
| "flow_loop c duration (it # stats) s = flow_loop c duration stats (flow_step c duration it s)"

subsection \<open>Distance driver\<close>

definition simulationTime :: real where
  "simulationTime = 50"

definition distance_scenario :: "PropagationModel \<Rightarrow> real \<Rightarrow> LinkScenario" where
  "distance_scenario model d =
     \<lparr>PropagationLoss = AddPropagationLoss model, Position = d, StopTime = simulationTime,
      MaxPackets = packetLimit simulationTime, Interval = interval, PacketSize = packetSize\<rparr>"

text \<open>
  The body of \<^verbatim>\<open>for (double d = 1; connectionPossible; d += 1)\<close>: reset the estimate, build
  and run the scenario, write the rows, apply the bound on \<^verbatim>\<open>d\<close>.
\<close>

definition distance_body :: "simulator \<Rightarrow> PropagationModel \<Rightarrow> real \<Rightarrow> SweepState \<Rightarrow> SweepState" where
  "distance_body sim model d s =
     (let s1 = s\<lparr>averageRSS := 0\<rparr>;
          outcome = sim (distance_scenario model d);
          s2 = s1\<lparr>averageRSS := Simulator_Run (frames outcome) (averageRSS s1)\<rparr>;
          s3 = flow_loop d simulationTime (flowStats outcome) s2
      in if d \<ge> 500 \<and> (model = NAKAGAMI \<or> model = FIXED_RSS)
         then s3\<lparr>connectionPossible := False\<rparr> else s3)"

text \<open>
  The loop itself.  Nothing bounds it for three of the models, so it is a partial function:
  \<^const>\<open>None\<close> is a sweep that never ends.
\<close>

partial_function (option) distance_loop ::
  "simulator \<Rightarrow> PropagationModel \<Rightarrow> real \<Rightarrow> SweepState \<Rightarrow> SweepState option" where
  "distance_loop sim model d s =
     (if connectionPossible s
      then distance_loop sim model (d + 1) (distance_body sim model d s)
      else Some s)"

declare distance_loop.simps [code]

text \<open>
  The body of \<^verbatim>\<open>for (PropagationModel model : modelsToBeExamined)\<close>: a fresh file with its
  header line, the flag set, the sweep from \<^verbatim>\<open>d = 1\<close>.  The global \<^verbatim>\<open>averageRSS\<close> comes in
  with whatever value the previous sweep left.
\<close>

definition outputFileName :: "PropagationModel \<Rightarrow> string" where
  "outputFileName model = ''output_'' @ propagationModelToString model @ ''.csv''"

definition sweep_start :: "PropagationModel \<Rightarrow> real \<Rightarrow> SweepState" where
  "sweep_start model avg =
     \<lparr>averageRSS = avg, connectionPossible = True,
      outputFile = create_file (outputFileName model)
        (''distanceMeters,rssDBm,throughputKbps,'' @ propagationModelToString model)\<rparr>"

definition model_sweep :: "simulator \<Rightarrow> PropagationModel \<Rightarrow> real \<Rightarrow> SweepState option" where
  "model_sweep sim model avg = distance_loop sim model 1 (sweep_start model avg)"

text \<open>
  \<^verbatim>\<open>main\<close> of the distance driver: the sweeps one after the other, each file kept under its
  name.  \<^verbatim>\<open>averageRSS\<close> is initialised to 0.
\<close>

primrec sweep_models ::
  "simulator \<Rightarrow> PropagationModel list \<Rightarrow> real \<Rightarrow> (string \<rightharpoonup> CsvFile) \<Rightarrow> (string \<rightharpoonup> CsvFile) option" where
  "sweep_models sim [] avg files = Some files"
| "sweep_models sim (model # models) avg files =
     (case model_sweep sim model avg of
        None \<Rightarrow> None
      | Some s \<Rightarrow> sweep_models sim models (averageRSS s)
                   (files(fileName (outputFile s) \<mapsto> outputFile s)))"

definition main_distance :: "simulator \<Rightarrow> (string \<rightharpoonup> CsvFile) option" where
  "main_distance sim = sweep_models sim modelsToBeExamined 0 Map.empty"

subsection \<open>Runtime driver\<close>

definition distance :: real where
  "distance = 10"

definition runtime_scenario :: "real \<Rightarrow> LinkScenario" where
  "runtime_scenario duration =
     \<lparr>PropagationLoss =
        [(''ns3::FriisPropagationLossModel'',
          [(''Frequency'', 5180000000), (''SystemLoss'', 1)])],
      Position = distance, StopTime = duration,
      MaxPackets = packetLimit duration, Interval = interval, PacketSize = packetSize\<rparr>"

text \<open>
  The body of \<^verbatim>\<open>for (double simulationTime = 1; simulationTime <= 200; simulationTime += 1)\<close>.
\<close>

definition runtime_body :: "simulator \<Rightarrow> real \<Rightarrow> SweepState \<Rightarrow> SweepState" where
  "runtime_body sim duration s =
     (let s1 = s\<lparr>averageRSS := 0\<rparr>;
          outcome = sim (runtime_scenario duration);
          s2 = s1\<lparr>averageRSS := Simulator_Run (frames outcome) (averageRSS s1)\<rparr>
      in flow_loop duration duration (flowStats outcome) s2)"

function runtime_loop :: "simulator \<Rightarrow> real \<Rightarrow> SweepState \<Rightarrow> SweepState" where
  "runtime_loop sim duration s =
     (if duration \<le> 200
      then runtime_loop sim (duration + 1) (runtime_body sim duration s)
      else s)"
  by pat_completeness auto
termination
  by (relation "measure (\<lambda>(sim, duration, s). nat \<lceil>201 - duration\<rceil>)") (auto, linarith)

declare runtime_loop.simps [simp del]

definition runtime_start :: SweepState where
  "runtime_start =
     \<lparr>averageRSS = 0, connectionPossible = True,
      outputFile = create_file ''output_runtime.csv'' ''runtime,rssDBm,throughputKbps''\<rparr>"

definition main_runtime :: "simulator \<Rightarrow> SweepState" where
  "main_runtime sim = runtime_loop sim 1 runtime_start"

section \<open>Vocabulary of the properties\<close>

text \<open>The rows that a run has added to the file: what is behind the rows that were there.\<close>

definition appended :: "SweepState \<Rightarrow> SweepState \<Rightarrow> Row list" where
  "appended before after =
     drop (length (rows (outputFile before))) (rows (outputFile after))"

text \<open>
  The rows one run is to write, read off its outcome: one per flow entry, all with the
  coordinate \<open>c\<close> and the estimate filtered from 0, each with its own throughput.
\<close>

definition rows_of_run :: "real \<Rightarrow> real \<Rightarrow> RunOutcome \<Rightarrow> Row list" where
  "rows_of_run c duration outcome =
     map (\<lambda>it. \<lparr>coordinate = c, rssDBm = Simulator_Run (frames outcome) 0,
                 throughputKbps = real (unat (rxBytes it)) * 8 / duration / 1024\<rparr>)
       (flowStats outcome)"

definition distance_rows :: "simulator \<Rightarrow> PropagationModel \<Rightarrow> nat \<Rightarrow> Row list" where
  "distance_rows sim model j =
     rows_of_run (real j) simulationTime (sim (distance_scenario model (real j)))"

definition runtime_rows :: "simulator \<Rightarrow> nat \<Rightarrow> Row list" where
  "runtime_rows sim j = rows_of_run (real j) (real j) (sim (runtime_scenario (real j)))"

text \<open>
  The run at distance \<open>d\<close> clears \<^verbatim>\<open>connectionPossible\<close>: some flow entry has no received
  bytes, or the bound on \<open>d\<close> applies.
\<close>

definition run_stops :: "simulator \<Rightarrow> PropagationModel \<Rightarrow> real \<Rightarrow> bool" where
  "run_stops sim model d =
     ((\<exists>it \<in> set (flowStats (sim (distance_scenario model d))). rxBytes it = 0) \<or>
      (d \<ge> 500 \<and> (model = NAKAGAMI \<or> model = FIXED_RSS)))"

text \<open>
  The recurrence of the specification for the filter, on the list of reported signal levels:
  \<open>e\<^sub>0 = 0\<close>, \<open>e\<^sub>i = (s\<^sub>i + e\<^bsub>i-1\<^esub>) / 2\<close>.
\<close>

fun rss_recurrence :: "real list \<Rightarrow> nat \<Rightarrow> real" where
  "rss_recurrence ss 0 = 0"
| "rss_recurrence ss (Suc i) = (ss ! i + rss_recurrence ss i) / 2"

text \<open>
  The flag of the specification's run measurement: \<open>receivedAnyBytes\<close> is
  \<open>totalReceivedBytes > 0\<close>, the total taken over the flow entries of the run.
\<close>

definition receivedAnyBytes :: "RunOutcome \<Rightarrow> bool" where
  "receivedAnyBytes outcome = (0 < sum_list (map (\<lambda>it. unat (rxBytes it)) (flowStats outcome)))"

definition single_flow :: "RunOutcome \<Rightarrow> bool" where
  "single_flow outcome = (length (flowStats outcome) = 1)"

section \<open>Some simulators\<close>

text \<open>
  A link that carries traffic below \<open>D\<close> metres: every run has one flow entry; below \<open>D\<close> two
  frames are heard at -60 dBm and 14500000 bytes arrive, from \<open>D\<close> on nothing is heard.
\<close>

definition sim_reach :: "nat \<Rightarrow> simulator" where
  "sim_reach D sc =
     (if Position sc < real D
      then \<lparr>frames = [\<lparr>signal = - 60, noise = - 90\<rparr>, \<lparr>signal = - 60, noise = - 90\<rparr>],
            flowStats = [\<lparr>rxBytes = 14500000\<rparr>]\<rparr>
      else \<lparr>frames = [], flowStats = [\<lparr>rxBytes = 0\<rparr>]\<rparr>)"

text \<open>A simulator whose flow table is always empty, and one whose table has two entries.\<close>

definition sim_silent :: simulator where
  "sim_silent sc = \<lparr>frames = [], flowStats = []\<rparr>"

definition sim_two_flows :: simulator where
  "sim_two_flows sc =
     \<lparr>frames = [\<lparr>signal = - 60, noise = - 90\<rparr>],
      flowStats = [\<lparr>rxBytes = 14500000\<rparr>, \<lparr>rxBytes = 2900\<rparr>]\<rparr>"

text \<open>
  A simulator whose first run leaves the flow table empty and whose later runs have one
  entry without received bytes.
\<close>

definition sim_late :: simulator where
  "sim_late sc =
     \<lparr>frames = [], flowStats = (if Position sc = 1 then [] else [\<lparr>rxBytes = 0\<rparr>])\<rparr>"

section \<open>The effect of one run\<close>

lemma Simulator_Run_Nil: "Simulator_Run [] avg = avg"
  by (simp add: Simulator_Run_def)

lemma Simulator_Run_snoc: "Simulator_Run (fs @ [f]) avg = PhyTrace f (Simulator_Run fs avg)"
  by (simp add: Simulator_Run_def)

lemma flow_step_averageRSS: "averageRSS (flow_step c T it s) = averageRSS s"
  by (simp add: flow_step_def Let_def)

lemma flow_step_rows:
  "rows (outputFile (flow_step c T it s)) =
     rows (outputFile s) @
       [\<lparr>coordinate = c, rssDBm = averageRSS s,
         throughputKbps = real (unat (rxBytes it)) * 8 / T / 1024\<rparr>]"
  by (simp add: flow_step_def Let_def append_row_def)

lemma flow_step_header:
  "header (outputFile (flow_step c T it s)) = header (outputFile s) \<and>
   fileName (outputFile (flow_step c T it s)) = fileName (outputFile s)"
  by (simp add: flow_step_def Let_def append_row_def)

lemma flow_step_connectionPossible:
  "connectionPossible (flow_step c T it s) = (connectionPossible s \<and> rxBytes it \<noteq> 0)"
  by (simp add: flow_step_def Let_def)

lemma flow_loop_averageRSS: "averageRSS (flow_loop c T stats s) = averageRSS s"
  by (induction stats arbitrary: s) (simp_all add: flow_step_averageRSS)

lemma flow_loop_rows:
  "rows (outputFile (flow_loop c T stats s)) =
     rows (outputFile s) @
       map (\<lambda>it. \<lparr>coordinate = c, rssDBm = averageRSS s,
                   throughputKbps = real (unat (rxBytes it)) * 8 / T / 1024\<rparr>) stats"
  by (induction stats arbitrary: s) (simp_all add: flow_step_averageRSS flow_step_rows)

lemma flow_loop_header:
  "header (outputFile (flow_loop c T stats s)) = header (outputFile s) \<and>
   fileName (outputFile (flow_loop c T stats s)) = fileName (outputFile s)"
  by (induction stats arbitrary: s) (simp_all add: flow_step_header)

lemma flow_loop_connectionPossible:
  "connectionPossible (flow_loop c T stats s) =
     (connectionPossible s \<and> (\<forall>it \<in> set stats. rxBytes it \<noteq> 0))"
  by (induction stats arbitrary: s) (auto simp add: flow_step_connectionPossible)

lemma distance_body_averageRSS:
  "averageRSS (distance_body sim model d s) =
     Simulator_Run (frames (sim (distance_scenario model d))) 0"
  by (simp add: distance_body_def Let_def flow_loop_averageRSS)

lemma distance_body_rows:
  "rows (outputFile (distance_body sim model d s)) =
     rows (outputFile s) @ rows_of_run d simulationTime (sim (distance_scenario model d))"
  by (simp add: distance_body_def Let_def flow_loop_rows rows_of_run_def)

lemma distance_body_header:
  "header (outputFile (distance_body sim model d s)) = header (outputFile s) \<and>
   fileName (outputFile (distance_body sim model d s)) = fileName (outputFile s)"
  by (simp add: distance_body_def Let_def flow_loop_header)

lemma distance_body_connectionPossible:
  "connectionPossible (distance_body sim model d s) =
     (connectionPossible s \<and>
      (\<forall>it \<in> set (flowStats (sim (distance_scenario model d))). rxBytes it \<noteq> 0) \<and>
      \<not> (d \<ge> 500 \<and> (model = NAKAGAMI \<or> model = FIXED_RSS)))"
  by (simp add: distance_body_def Let_def flow_loop_connectionPossible)

lemma distance_body_stops:
  "connectionPossible (distance_body sim model d s) =
     (connectionPossible s \<and> \<not> run_stops sim model d)"
  by (auto simp add: distance_body_connectionPossible run_stops_def)

lemma runtime_body_averageRSS:
  "averageRSS (runtime_body sim t s) = Simulator_Run (frames (sim (runtime_scenario t))) 0"
  by (simp add: runtime_body_def Let_def flow_loop_averageRSS)

lemma runtime_body_rows:
  "rows (outputFile (runtime_body sim t s)) =
     rows (outputFile s) @ rows_of_run t t (sim (runtime_scenario t))"
  by (simp add: runtime_body_def Let_def flow_loop_rows rows_of_run_def)

lemma runtime_body_header:
  "header (outputFile (runtime_body sim t s)) = header (outputFile s) \<and>
   fileName (outputFile (runtime_body sim t s)) = fileName (outputFile s)"
  by (simp add: runtime_body_def Let_def flow_loop_header)

lemma runtime_body_connectionPossible:
  "connectionPossible (runtime_body sim t s) =
     (connectionPossible s \<and>
      (\<forall>it \<in> set (flowStats (sim (runtime_scenario t))). rxBytes it \<noteq> 0))"
  by (simp add: runtime_body_def Let_def flow_loop_connectionPossible)

lemma appended_distance_body:
  "appended s (distance_body sim model d s) =
     rows_of_run d simulationTime (sim (distance_scenario model d))"
  by (simp add: appended_def distance_body_rows)

lemma appended_runtime_body:
  "appended s (runtime_body sim t s) = rows_of_run t t (sim (runtime_scenario t))"
  by (simp add: appended_def runtime_body_rows)

lemma coordinate_rows_of_run:
  "map coordinate (rows_of_run c T outcome) = replicate (length (flowStats outcome)) c"
  by (simp add: rows_of_run_def o_def map_replicate_const)

lemma coordinate_distance_rows:
  "r \<in> set (distance_rows sim model j) \<Longrightarrow> coordinate r = real j"
  by (auto simp add: distance_rows_def rows_of_run_def)

text \<open>
  No two runs of a driver are given the same scenario, so a simulator that is a function of
  the scenario can give every run of a program execution an outcome of its own.
\<close>

lemma AddPropagationLoss_inject:
  "AddPropagationLoss model = AddPropagationLoss model' \<Longrightarrow> model = model'"
  by (cases model; cases model') simp_all

lemma distance_scenario_inject:
  "distance_scenario model d = distance_scenario model' d' \<Longrightarrow> model = model' \<and> d = d'"
  by (simp add: distance_scenario_def AddPropagationLoss_inject)

lemma runtime_scenario_inject:
  "runtime_scenario t = runtime_scenario t' \<Longrightarrow> t = t'"
  by (simp add: runtime_scenario_def)

section \<open>The loop of the distance driver\<close>

text \<open>
  If the runs from \<open>k\<close> to \<open>D - 1\<close> leave the flag set and the run at \<open>D\<close> clears it, the loop
  started at \<open>k\<close> ends after the run at \<open>D\<close>, with the rows of these runs appended in order.
\<close>

lemma distance_loop_stops_at:
  assumes "k \<le> D"
    and "\<forall>j. k \<le> j \<and> j < D \<longrightarrow> \<not> run_stops sim model (real j)"
    and "run_stops sim model (real D)"
    and "connectionPossible s"
  shows "\<exists>s'. distance_loop sim model (real k) s = Some s' \<and>
           \<not> connectionPossible s' \<and>
           rows (outputFile s') =
             rows (outputFile s) @ concat (map (distance_rows sim model) [k..<Suc D]) \<and>
           header (outputFile s') = header (outputFile s) \<and>
           fileName (outputFile s') = fileName (outputFile s) \<and>
           averageRSS s' = Simulator_Run (frames (sim (distance_scenario model (real D)))) 0"
  using assms
proof (induction "D - k" arbitrary: k s)
  case 0
  then have kD: "k = D" by simp
  let ?s1 = "distance_body sim model (real D) s"
  have stop: "\<not> connectionPossible ?s1"
    using "0.prems" by (simp add: distance_body_stops)
  have "distance_loop sim model (real k) s = distance_loop sim model (real D + 1) ?s1"
    using "0.prems" kD by (subst distance_loop.simps) simp
  also have "\<dots> = Some ?s1"
    using stop by (subst distance_loop.simps) simp
  finally show ?case
    using stop kD
    by (simp add: distance_body_rows distance_body_header distance_body_averageRSS
        distance_rows_def)
next
  case (Suc n)
  then have lt: "k < D" by simp
  let ?s1 = "distance_body sim model (real k) s"
  have go: "connectionPossible ?s1"
    using Suc.prems lt by (simp add: distance_body_stops)
  have step: "distance_loop sim model (real k) s = distance_loop sim model (real (Suc k)) ?s1"
    using Suc.prems by (subst distance_loop.simps) (simp add: add.commute)
  have "n = D - Suc k" using Suc.hyps by simp
  moreover have "Suc k \<le> D" using lt by simp
  moreover have "\<forall>j. Suc k \<le> j \<and> j < D \<longrightarrow> \<not> run_stops sim model (real j)"
    using Suc.prems by simp
  ultimately obtain s' where s':
    "distance_loop sim model (real (Suc k)) ?s1 = Some s'"
    "\<not> connectionPossible s'"
    "rows (outputFile s') =
       rows (outputFile ?s1) @ concat (map (distance_rows sim model) [Suc k..<Suc D])"
    "header (outputFile s') = header (outputFile ?s1)"
    "fileName (outputFile s') = fileName (outputFile ?s1)"
    "averageRSS s' = Simulator_Run (frames (sim (distance_scenario model (real D)))) 0"
    using Suc.hyps(1)[of "Suc k" ?s1] Suc.prems(3) go by blast
  have "[k..<Suc D] = k # [Suc k..<Suc D]"
    using lt by (simp add: upt_conv_Cons)
  then show ?case
    using step s'
    by (simp add: distance_body_rows distance_body_header distance_rows_def)
qed

text \<open>If no run from \<open>k\<close> on clears the flag, the loop started at \<open>k\<close> does not end.\<close>

lemma distance_loop_Some_stops:
  assumes "distance_loop sim model d s = Some s'"
  shows "\<not> (connectionPossible s \<and>
            (\<exists>k. d = real k \<and> (\<forall>j \<ge> k. \<not> run_stops sim model (real j))))"
proof (rule distance_loop.raw_induct
    [where P = "\<lambda>sim model d s s'. \<not> (connectionPossible s \<and>
            (\<exists>k. d = real k \<and> (\<forall>j \<ge> k. \<not> run_stops sim model (real j))))", OF _ assms])
  fix loop :: "simulator \<Rightarrow> PropagationModel \<Rightarrow> real \<Rightarrow> SweepState \<Rightarrow> SweepState option"
  fix sim model d s s'
  assume IH: "\<And>sim model d s s'. loop sim model d s = Some s' \<Longrightarrow>
     \<not> (connectionPossible s \<and>
        (\<exists>k. d = real k \<and> (\<forall>j \<ge> k. \<not> run_stops sim model (real j))))"
  assume unfolded: "(if connectionPossible s
      then loop sim model (d + 1) (distance_body sim model d s) else Some s) = Some s'"
  show "\<not> (connectionPossible s \<and>
        (\<exists>k. d = real k \<and> (\<forall>j \<ge> k. \<not> run_stops sim model (real j))))"
  proof
    assume a: "connectionPossible s \<and>
      (\<exists>k. d = real k \<and> (\<forall>j \<ge> k. \<not> run_stops sim model (real j)))"
    then obtain k where k: "d = real k" "\<forall>j \<ge> k. \<not> run_stops sim model (real j)"
      by blast
    from a unfolded have run: "loop sim model (d + 1) (distance_body sim model d s) = Some s'"
      by simp
    have c1: "connectionPossible (distance_body sim model d s)"
      using a k by (simp add: distance_body_stops)
    have c2: "d + 1 = real (Suc k)" using k by simp
    have c3: "\<forall>j \<ge> Suc k. \<not> run_stops sim model (real j)" using k by simp
    have "connectionPossible (distance_body sim model d s) \<and>
      (\<exists>k'. d + 1 = real k' \<and> (\<forall>j \<ge> k'. \<not> run_stops sim model (real j)))"
      using c1 c2 c3 by (intro conjI exI[of _ "Suc k"])
    with IH[OF run] show False by (rule notE)
  qed
qed

lemma distance_loop_never_stops:
  assumes "\<forall>j \<ge> k. \<not> run_stops sim model (real j)"
    and "connectionPossible s"
  shows "distance_loop sim model (real k) s = None"
proof (cases "distance_loop sim model (real k) s")
  case None
  then show ?thesis .
next
  case (Some s')
  from distance_loop_Some_stops[OF Some] assms show ?thesis by blast
qed

lemma sweep_start_simps:
  "connectionPossible (sweep_start model avg)"
  "rows (outputFile (sweep_start model avg)) = []"
  "fileName (outputFile (sweep_start model avg)) = outputFileName model"
  by (simp_all add: sweep_start_def create_file_def)

lemma model_sweep_stops_at:
  assumes "1 \<le> D"
    and "\<forall>j. 1 \<le> j \<and> j < D \<longrightarrow> \<not> run_stops sim model (real j)"
    and "run_stops sim model (real D)"
  shows "\<exists>s. model_sweep sim model avg = Some s \<and> \<not> connectionPossible s \<and>
           rows (outputFile s) = concat (map (distance_rows sim model) [1..<Suc D]) \<and>
           fileName (outputFile s) = outputFileName model"
proof -
  from distance_loop_stops_at [of 1 D sim model "sweep_start model avg"] assms
  obtain s' where "distance_loop sim model (real 1) (sweep_start model avg) = Some s'"
    "\<not> connectionPossible s'"
    "rows (outputFile s') =
       rows (outputFile (sweep_start model avg)) @
       concat (map (distance_rows sim model) [1..<Suc D])"
    "fileName (outputFile s') = fileName (outputFile (sweep_start model avg))"
    using sweep_start_simps(1) by blast
  then show ?thesis
    by (simp add: model_sweep_def sweep_start_simps)
qed

lemma first_stop:
  assumes "1 \<le> B" and "run_stops sim model (real B)"
  shows "\<exists>D. 1 \<le> D \<and> D \<le> B \<and> run_stops sim model (real D) \<and>
           (\<forall>j. 1 \<le> j \<and> j < D \<longrightarrow> \<not> run_stops sim model (real j))"
proof -
  let ?P = "\<lambda>j. 1 \<le> j \<and> run_stops sim model (real j)"
  have B: "?P B" using assms by simp
  have "?P (LEAST j. ?P j)" using B by (rule LeastI)
  moreover have "(LEAST j. ?P j) \<le> B" using B by (rule Least_le)
  moreover have "\<forall>j. 1 \<le> j \<and> j < (LEAST j. ?P j) \<longrightarrow> \<not> run_stops sim model (real j)"
    using not_less_Least [of _ ?P] by blast
  ultimately show ?thesis by blast
qed

lemma bounded_sweep:
  assumes "model = FIXED_RSS \<or> model = NAKAGAMI"
  shows "\<exists>s. model_sweep sim model avg = Some s \<and>
           (\<forall>r \<in> set (rows (outputFile s)). coordinate r \<le> 500)"
proof -
  have "run_stops sim model (real 500)"
    using assms by (auto simp add: run_stops_def)
  with first_stop [of 500 sim model] obtain D where D: "1 \<le> D" "D \<le> 500"
    "run_stops sim model (real D)"
    "\<forall>j. 1 \<le> j \<and> j < D \<longrightarrow> \<not> run_stops sim model (real j)"
    by auto
  from model_sweep_stops_at [OF D(1) D(4) D(3), of avg]
  obtain s where s: "model_sweep sim model avg = Some s"
    "rows (outputFile s) = concat (map (distance_rows sim model) [1..<Suc D])"
    by blast
  have "coordinate r \<le> 500" if "r \<in> set (rows (outputFile s))" for r
  proof -
    from that s(2) obtain j where j: "j \<in> set [1..<Suc D]" "r \<in> set (distance_rows sim model j)"
      by auto
    then have "coordinate r = real j" by (simp add: coordinate_distance_rows)
    moreover have "j \<le> 500" using j(1) D(2) by auto
    ultimately show ?thesis by simp
  qed
  with s(1) show ?thesis by blast
qed

lemma single_flow_received:
  assumes "single_flow outcome"
  shows "receivedAnyBytes outcome = (\<forall>it \<in> set (flowStats outcome). rxBytes it \<noteq> 0)"
proof -
  from assms obtain it where "flowStats outcome = [it]"
    by (auto simp add: single_flow_def length_Suc_conv)
  then show ?thesis
    by (simp add: receivedAnyBytes_def unat_gt_0)
qed

lemma single_flow_rows:
  assumes "\<forall>j \<in> set js. single_flow (sim (distance_scenario model (real j)))"
  shows "map coordinate (concat (map (distance_rows sim model) js)) = map real js"
  using assms
  by (induction js) (simp_all add: distance_rows_def coordinate_rows_of_run single_flow_def)

lemma run_stops_sim_reach:
  "run_stops (sim_reach R) model (real j) =
     (R \<le> j \<or> (500 \<le> j \<and> (model = NAKAGAMI \<or> model = FIXED_RSS)))"
  by (auto simp add: run_stops_def sim_reach_def distance_scenario_def)

lemma sim_reach_single_flow: "single_flow (sim_reach R sc)"
  by (simp add: single_flow_def sim_reach_def)

lemma sim_reach_sweep:
  assumes "1 \<le> D"
    and "\<forall>j. 1 \<le> j \<longrightarrow> run_stops (sim_reach R) model (real j) = (D \<le> j)"
  shows "map_option (map coordinate \<circ> rows \<circ> outputFile) (model_sweep (sim_reach R) model avg) =
           Some (map real [1..<Suc D])"
proof -
  have "\<forall>j. 1 \<le> j \<and> j < D \<longrightarrow> \<not> run_stops (sim_reach R) model (real j)"
    using assms(2) by simp
  moreover have "run_stops (sim_reach R) model (real D)"
    using assms by simp
  ultimately obtain s where s: "model_sweep (sim_reach R) model avg = Some s"
    "rows (outputFile s) = concat (map (distance_rows (sim_reach R) model) [1..<Suc D])"
    using model_sweep_stops_at [OF assms(1), of "sim_reach R" model avg] by blast
  have "map coordinate (concat (map (distance_rows (sim_reach R) model) [1..<Suc D])) =
      map real [1..<Suc D]"
    by (rule single_flow_rows) (simp add: sim_reach_single_flow)
  with s show ?thesis by simp
qed

lemma empty_tables_run_stops:
  assumes "\<forall>j. 1 \<le> j \<longrightarrow> flowStats (sim (distance_scenario model (real j))) = []"
    and "1 \<le> j"
  shows "run_stops sim model (real j) = (500 \<le> j \<and> (model = NAKAGAMI \<or> model = FIXED_RSS))"
  using assms by (simp add: run_stops_def)

lemma empty_tables_sweep:
  assumes "\<forall>j. 1 \<le> j \<longrightarrow> flowStats (sim (distance_scenario model (real j))) = []"
  shows "map_option (rows \<circ> outputFile) (model_sweep sim model avg) =
           (if model = NAKAGAMI \<or> model = FIXED_RSS then Some [] else None)"
proof (cases "model = NAKAGAMI \<or> model = FIXED_RSS")
  case True
  have "\<forall>j. 1 \<le> j \<and> j < 500 \<longrightarrow> \<not> run_stops sim model (real j)"
    using assms by (simp add: empty_tables_run_stops)
  moreover have "run_stops sim model (real 500)"
    using True by (auto simp add: run_stops_def)
  ultimately obtain s where s: "model_sweep sim model avg = Some s"
    "rows (outputFile s) = concat (map (distance_rows sim model) [1..<Suc 500])"
    using model_sweep_stops_at [of 500 sim model avg] by auto
  have "concat (map (distance_rows sim model) [1..<Suc 500]) = []"
    using assms by (simp add: distance_rows_def rows_of_run_def)
  with s True show ?thesis by simp
next
  case False
  have "\<forall>j \<ge> 1. \<not> run_stops sim model (real j)"
    using assms False by (simp add: empty_tables_run_stops)
  then have "distance_loop sim model (real 1) (sweep_start model avg) = None"
    by (rule distance_loop_never_stops) (rule sweep_start_simps)
  with False show ?thesis by (simp add: model_sweep_def)
qed

section \<open>The loop of the runtime driver\<close>

lemma runtime_loop_rows:
  assumes "k \<le> 201"
  shows "rows (outputFile (runtime_loop sim (real k) s)) =
           rows (outputFile s) @ concat (map (runtime_rows sim) [k..<201]) \<and>
         header (outputFile (runtime_loop sim (real k) s)) = header (outputFile s) \<and>
         fileName (outputFile (runtime_loop sim (real k) s)) = fileName (outputFile s) \<and>
         connectionPossible (runtime_loop sim (real k) s) =
           (connectionPossible s \<and>
            (\<forall>j \<in> set [k..<201]. \<forall>it \<in> set (flowStats (sim (runtime_scenario (real j)))).
               rxBytes it \<noteq> 0))"
  using assms
proof (induction "201 - k" arbitrary: k s)
  case 0
  then have "k = 201" by simp
  then have "runtime_loop sim (real k) s = s"
    by (subst runtime_loop.simps) simp
  then show ?case using \<open>k = 201\<close> by simp
next
  case (Suc n)
  then have lt: "k < 201" by simp
  let ?s1 = "runtime_body sim (real k) s"
  have step: "runtime_loop sim (real k) s = runtime_loop sim (real (Suc k)) ?s1"
    using lt by (subst runtime_loop.simps) (simp add: add.commute)
  have "n = 201 - Suc k" "Suc k \<le> 201" using Suc.hyps lt by simp_all
  from Suc.hyps(1)[OF this, of ?s1]
  have IH: "rows (outputFile (runtime_loop sim (real (Suc k)) ?s1)) =
           rows (outputFile ?s1) @ concat (map (runtime_rows sim) [Suc k..<201])"
    "header (outputFile (runtime_loop sim (real (Suc k)) ?s1)) = header (outputFile ?s1)"
    "fileName (outputFile (runtime_loop sim (real (Suc k)) ?s1)) = fileName (outputFile ?s1)"
    "connectionPossible (runtime_loop sim (real (Suc k)) ?s1) =
           (connectionPossible ?s1 \<and>
            (\<forall>j \<in> set [Suc k..<201]. \<forall>it \<in> set (flowStats (sim (runtime_scenario (real j)))).
               rxBytes it \<noteq> 0))"
    by blast+
  have upt: "[k..<201] = k # [Suc k..<201]"
    using lt by (simp add: upt_conv_Cons)
  show ?case
    unfolding step upt IH
    by (simp add: runtime_body_rows runtime_body_header runtime_body_connectionPossible
        runtime_rows_def del: upt_Suc)
qed

lemma runtime_start_simps:
  "connectionPossible runtime_start"
  "rows (outputFile runtime_start) = []"
  by (simp_all add: runtime_start_def create_file_def)

lemma main_runtime_rows:
  "rows (outputFile (main_runtime sim)) = concat (map (runtime_rows sim) [1..<201])"
  using runtime_loop_rows [of 1 sim runtime_start]
  by (simp add: main_runtime_def runtime_start_simps)

lemma main_runtime_connectionPossible:
  "connectionPossible (main_runtime sim) =
     (\<forall>j \<in> set [1..<201]. \<forall>it \<in> set (flowStats (sim (runtime_scenario (real j)))).
        rxBytes it \<noteq> 0)"
  using runtime_loop_rows [of 1 sim runtime_start]
  by (simp add: main_runtime_def runtime_start_simps)

lemma single_flow_runtime_rows:
  assumes "\<forall>j \<in> set js. single_flow (sim (runtime_scenario (real j)))"
  shows "map coordinate (concat (map (runtime_rows sim) js)) = map real js"
  using assms
  by (induction js) (simp_all add: runtime_rows_def coordinate_rows_of_run single_flow_def)

lemma empty_runtime_rows:
  assumes "\<forall>j \<in> set js. flowStats (sim (runtime_scenario (real j))) = []"
  shows "concat (map (runtime_rows sim) js) = []"
  using assms by (simp add: runtime_rows_def rows_of_run_def)

lemma length_concat_const:
  assumes "\<forall>x \<in> set xs. length (f x) = n"
  shows "length (concat (map f xs)) = n * length xs"
  using assms by (induction xs) simp_all

section \<open>The filter and the scenario parameters\<close>

lemma rss_recurrence_append:
  "i \<le> length ss \<Longrightarrow> rss_recurrence (ss @ ts) i = rss_recurrence ss i"
  by (induction i) (simp_all add: nth_append)

lemma Simulator_Run_recurrence:
  "Simulator_Run fs 0 = rss_recurrence (map signal fs) (length fs)"
proof (induction fs rule: rev_induct)
  case Nil
  show ?case by (simp add: Simulator_Run_Nil)
next
  case (snoc f fs)
  have "rss_recurrence (map signal fs @ [signal f]) (length fs) =
        rss_recurrence (map signal fs) (length fs)"
    by (rule rss_recurrence_append) simp
  with snoc show ?case
    by (simp add: Simulator_Run_snoc PhyTrace_def nth_append)
qed

lemma interval_value: "interval = 29 / 187500"
  by (simp add: interval_def dataRate_def packetSize_def)

lemma packetLimit_distance: "packetLimit simulationTime = 323275"
  by (simp add: packetLimit_def double_to_uint64_def interval_value simulationTime_def)

lemma double_to_uint64_floor:
  assumes "0 \<le> x" and "x < 2 ^ 64"
  shows "int (unat (double_to_uint64 x)) = \<lfloor>x\<rfloor>"
proof -
  have "0 \<le> \<lfloor>x\<rfloor>" using assms(1) by simp
  moreover have "\<lfloor>x\<rfloor> < 2 ^ 64" using assms(2) by (simp add: floor_less_iff)
  ultimately have "uint (word_of_int \<lfloor>x\<rfloor> :: 64 word) = \<lfloor>x\<rfloor>"
    by (simp add: uint_word_of_int take_bit_eq_mod)
  then show ?thesis
    using assms(1) by (simp add: double_to_uint64_def)
qed

lemma packetLimit_bracket:
  assumes "0 \<le> t" and "t \<le> 200"
  shows "int (unat (packetLimit t)) = \<lfloor>t / interval\<rfloor>"
proof -
  have "t / interval = t * (187500 / 29)" by (simp add: interval_value)
  also have "\<dots> \<le> 200 * (187500 / 29)" using assms(2) by simp
  also have "\<dots> < 2 ^ 64" by simp
  finally have "t / interval < 2 ^ 64" .
  moreover have "0 \<le> t / interval" using assms(1) by (simp add: interval_value)
  ultimately show ?thesis
    unfolding packetLimit_def by (rule double_to_uint64_floor[rotated])
qed

section \<open>Termination of the distance sweep\<close>

text \<open>
  Two sweeps whose files are not the rows of the coordinates 1 to \<open>D\<close>.  In the first, the run
  at distance 1 leaves the flow table empty, so no byte was received there, and the run at
  distance 2 has one entry without received bytes: the file holds a row for coordinate 2
  and none for coordinate 1.  In the second, the Nakagami link receives bytes up to 501
  metres and none at 502: the file ends at coordinate 500.
\<close>

theorem distance_sweep_rows_counterexample:
  "\<not> receivedAnyBytes (sim_late (distance_scenario FRIIS 1)) \<and>
   map_option (map coordinate \<circ> rows \<circ> outputFile) (model_sweep sim_late FRIIS 0) = Some [2] \<and>
   receivedAnyBytes (sim_reach 502 (distance_scenario NAKAGAMI 500)) \<and>
   receivedAnyBytes (sim_reach 502 (distance_scenario NAKAGAMI 501)) \<and>
   \<not> receivedAnyBytes (sim_reach 502 (distance_scenario NAKAGAMI 502)) \<and>
   map_option (map coordinate \<circ> rows \<circ> outputFile) (model_sweep (sim_reach 502) NAKAGAMI 0) =
     Some (map real [1..<501])"
proof -
  have a: "map_option (map coordinate \<circ> rows \<circ> outputFile) (model_sweep sim_late FRIIS 0) = Some [2]"
    by (simp add: model_sweep_def sweep_start_def distance_loop.simps distance_body_def
        sim_late_def distance_scenario_def Simulator_Run_def flow_step_def create_file_def
        append_row_def)
  have "map_option (map coordinate \<circ> rows \<circ> outputFile) (model_sweep (sim_reach 502) NAKAGAMI 0) =
      Some (map real [1..<Suc 500])"
    by (rule sim_reach_sweep) (auto simp add: run_stops_sim_reach)
  then have b: "map_option (map coordinate \<circ> rows \<circ> outputFile)
      (model_sweep (sim_reach 502) NAKAGAMI 0) = Some (map real [1..<501])"
    by simp
  show ?thesis
    using a b
    by (simp add: receivedAnyBytes_def sim_late_def sim_reach_def distance_scenario_def)
qed

text \<open>
  Claim C1 (distance-sweep termination), as the code has it.  Let every run at the distances
  1 to \<open>D\<close> return exactly one flow entry, with received bytes below \<open>D\<close> and none at \<open>D\<close>
  (for FixedRSS and Nakagami let \<open>D\<close> be at most 500, where their sweep ends in any case).
  Then the sweep of the model ends, the run at \<open>D\<close> is recorded, and the file holds exactly
  the rows of the coordinates 1 to \<open>D\<close> in order, one each.
\<close>

theorem distance_sweep_termination:
  assumes "1 \<le> D"
    and "\<forall>j. 1 \<le> j \<and> j \<le> D \<longrightarrow> single_flow (sim (distance_scenario model (real j)))"
    and "\<forall>j. 1 \<le> j \<and> j < D \<longrightarrow> receivedAnyBytes (sim (distance_scenario model (real j)))"
    and "\<not> receivedAnyBytes (sim (distance_scenario model (real D)))"
    and "model = FIXED_RSS \<or> model = NAKAGAMI \<longrightarrow> D \<le> 500"
  shows "map_option (map coordinate \<circ> rows \<circ> outputFile) (model_sweep sim model avg) =
           Some (map real [1..<Suc D]) \<and>
         map_option (rows \<circ> outputFile) (model_sweep sim model avg) =
           Some (concat (map (distance_rows sim model) [1..<Suc D])) \<and>
         map_option connectionPossible (model_sweep sim model avg) = Some False"
proof -
  have go: "\<forall>j. 1 \<le> j \<and> j < D \<longrightarrow> \<not> run_stops sim model (real j)"
  proof (intro allI impI)
    fix j assume j: "1 \<le> j \<and> j < D"
    then have "single_flow (sim (distance_scenario model (real j)))"
      and "receivedAnyBytes (sim (distance_scenario model (real j)))"
      using assms(2,3) by simp_all
    then have "\<forall>it \<in> set (flowStats (sim (distance_scenario model (real j)))). rxBytes it \<noteq> 0"
      by (simp add: single_flow_received)
    moreover have "\<not> (real j \<ge> 500 \<and> (model = NAKAGAMI \<or> model = FIXED_RSS))"
      using j assms(5) by auto
    ultimately show "\<not> run_stops sim model (real j)"
      by (simp add: run_stops_def)
  qed
  have "single_flow (sim (distance_scenario model (real D)))"
    using assms(1,2) by simp
  with assms(4) have stop: "run_stops sim model (real D)"
    by (simp add: single_flow_received run_stops_def)
  from model_sweep_stops_at [OF assms(1) go stop, of avg]
  obtain s where s: "model_sweep sim model avg = Some s" "\<not> connectionPossible s"
    "rows (outputFile s) = concat (map (distance_rows sim model) [1..<Suc D])"
    by blast
  have "\<forall>j \<in> set [1..<Suc D]. single_flow (sim (distance_scenario model (real j)))"
    using assms(2) by auto
  then have "map coordinate (concat (map (distance_rows sim model) [1..<Suc D])) =
      map real [1..<Suc D]"
    by (rule single_flow_rows)
  with s show ?thesis by simp
qed

theorem distance_sweep_termination_witness:
  "map_option (map coordinate \<circ> rows \<circ> outputFile) (model_sweep (sim_reach 3) FRIIS 0) =
     Some [1, 2, 3] \<and>
   map_option connectionPossible (model_sweep (sim_reach 3) FRIIS 0) = Some False"
proof -
  have "map real [1..<Suc 3] = [1, 2, 3]"
    by (simp add: upt_rec)
  then show ?thesis
    using distance_sweep_termination [of 3 "sim_reach 3" FRIIS 0]
    by (simp add: sim_reach_def distance_scenario_def single_flow_def receivedAnyBytes_def)
qed

section \<open>The signal-strength filter\<close>

text \<open>
  Claim C2 (RSS filter).  One received frame with signal level \<open>s\<close> replaces the estimate by
  \<open>(s + estimate) / 2\<close>.  In both drivers the estimate a run ends with is the value of the
  recurrence \<open>e\<^sub>0 = 0\<close>, \<open>e\<^sub>i = (s\<^sub>i + e\<^bsub>i-1\<^esub>) / 2\<close> on the signal levels of the frames of
  that run, whatever the state before the run was.  Two frames at -60 give -45, not -60.
\<close>

theorem rss_filter_recurrence:
  "PhyTrace f avg = (signal f + avg) / 2 \<and>
   averageRSS (distance_body sim model d s) =
     rss_recurrence (map signal (frames (sim (distance_scenario model d))))
       (length (frames (sim (distance_scenario model d)))) \<and>
   averageRSS (runtime_body sim t s) =
     rss_recurrence (map signal (frames (sim (runtime_scenario t))))
       (length (frames (sim (runtime_scenario t)))) \<and>
   PhyTrace \<lparr>signal = - 60, noise = n2\<rparr> (PhyTrace \<lparr>signal = - 60, noise = n1\<rparr> 0) = - 45 \<and>
   rss_recurrence [- 60, - 60] 2 = - 45 \<and>
   averageRSS (distance_body (sim_reach 3) model 1 s) = - 45 \<and>
   averageRSS (distance_body (sim_reach 3) model 1 s) \<noteq> - 60"
proof -
  have ex: "averageRSS (distance_body (sim_reach 3) model 1 s) = - 45"
    by (simp add: distance_body_averageRSS sim_reach_def distance_scenario_def
        Simulator_Run_def PhyTrace_def)
  have rec: "rss_recurrence [- 60, - 60] 2 = - 45"
    by (simp add: numeral_2_eq_2)
  show ?thesis
    using ex rec
    by (simp add: distance_body_averageRSS runtime_body_averageRSS Simulator_Run_recurrence
        PhyTrace_def)
qed

section \<open>Throughput\<close>

text \<open>
  Claim C3 (throughput extraction).  The throughput column of the rows a run appends holds,
  for each flow entry in turn, \<open>rxBytes * 8 / duration / 1024\<close>; the duration is the constant
  50 in the distance driver and the swept duration in the runtime driver.  14500000 bytes
  in 50 seconds are 2265.625 kbps.
\<close>

theorem throughput_formula:
  "map throughputKbps (appended s (distance_body sim model d s)) =
     map (\<lambda>it. real (unat (rxBytes it)) * 8 / simulationTime / 1024)
       (flowStats (sim (distance_scenario model d))) \<and>
   map throughputKbps (appended s (runtime_body sim t s)) =
     map (\<lambda>it. real (unat (rxBytes it)) * 8 / t / 1024)
       (flowStats (sim (runtime_scenario t))) \<and>
   simulationTime = 50 \<and>
   map throughputKbps (appended s (distance_body (sim_reach 3) model 1 s)) = [2265.625] \<and>
   map throughputKbps (appended s (runtime_body (sim_reach 11) 50 s)) = [2265.625]"
proof -
  have e1: "map throughputKbps (appended s (distance_body (sim_reach 3) model 1 s)) = [2265.625]"
    by (simp add: appended_distance_body rows_of_run_def sim_reach_def distance_scenario_def
        simulationTime_def)
  have e2: "map throughputKbps (appended s (runtime_body (sim_reach 11) 50 s)) = [2265.625]"
    by (simp add: appended_runtime_body rows_of_run_def sim_reach_def runtime_scenario_def
        distance_def)
  show ?thesis
    using e1 e2
    by (simp add: appended_distance_body appended_runtime_body rows_of_run_def o_def
        simulationTime_def)
qed

section \<open>Completeness of the runtime sweep\<close>

text \<open>
  With a flow table that is always empty the runtime driver writes no row, and with two
  flow entries per run it writes 400.
\<close>

theorem runtime_sweep_rows_counterexample:
  "length (rows (outputFile (main_runtime sim_silent))) = 0 \<and>
   length (rows (outputFile (main_runtime sim_two_flows))) = 400"
proof -
  have "concat (map (runtime_rows sim_silent) [1..<201]) = []"
    by (rule empty_runtime_rows) (simp add: sim_silent_def)
  moreover have "length (concat (map (runtime_rows sim_two_flows) [1..<201])) = 2 * length [1..<201]"
    by (rule length_concat_const) (simp add: runtime_rows_def rows_of_run_def sim_two_flows_def)
  ultimately show ?thesis
    by (simp add: main_runtime_rows)
qed

text \<open>
  Claim C4 (runtime-sweep completeness), as the code has it.  The driver makes the 200 runs
  for the durations 1 to 200 whatever their outcomes are: the file holds the rows of these
  runs in order, one per flow entry, and the flag only records whether some flow entry had
  no received bytes.  When every run returns exactly one flow entry the file has exactly
  200 rows with the coordinates 1 to 200, whether or not bytes were received.
\<close>

theorem runtime_sweep_completeness:
  "rows (outputFile (main_runtime sim)) = concat (map (runtime_rows sim) [1..<201]) \<and>
   connectionPossible (main_runtime sim) =
     (\<forall>j \<in> set [1..<201]. \<forall>it \<in> set (flowStats (sim (runtime_scenario (real j)))).
        rxBytes it \<noteq> 0) \<and>
   ((\<forall>j. 1 \<le> j \<and> j \<le> 200 \<longrightarrow> single_flow (sim (runtime_scenario (real j)))) \<longrightarrow>
      map coordinate (rows (outputFile (main_runtime sim))) = map real [1..<201] \<and>
      length (rows (outputFile (main_runtime sim))) = 200)"
proof -
  have "map coordinate (rows (outputFile (main_runtime sim))) = map real [1..<201] \<and>
      length (rows (outputFile (main_runtime sim))) = 200"
    if one: "\<forall>j. 1 \<le> j \<and> j \<le> 200 \<longrightarrow> single_flow (sim (runtime_scenario (real j)))"
  proof -
    have "\<forall>j \<in> set [1..<201]. single_flow (sim (runtime_scenario (real j)))"
      using one by auto
    then have c: "map coordinate (concat (map (runtime_rows sim) [1..<201])) = map real [1..<201]"
      by (rule single_flow_runtime_rows)
    have "length (map coordinate (rows (outputFile (main_runtime sim)))) = 200"
      unfolding main_runtime_rows c by simp
    then show ?thesis
      using c by (simp add: main_runtime_rows)
  qed
  with main_runtime_rows [of sim] main_runtime_connectionPossible [of sim] show ?thesis
    by blast
qed

theorem runtime_sweep_completeness_witness:
  "map coordinate (rows (outputFile (main_runtime (sim_reach 3)))) = map real [1..<201] \<and>
   length (rows (outputFile (main_runtime (sim_reach 3)))) = 200 \<and>
   connectionPossible (runtime_body (sim_reach 3) 1 runtime_start) = False"
  using runtime_sweep_completeness [of "sim_reach 3", THEN conjunct2, THEN conjunct2]
  by (simp add: sim_reach_def single_flow_def runtime_body_connectionPossible
      runtime_scenario_def distance_def)

section \<open>The bound on the distance\<close>

text \<open>
  Claim C5 (forced-stop rule).  For FixedRSS and Nakagami a run at a distance of 500 or more
  clears the flag whatever was received; their sweep therefore ends for every simulator and
  no row of their file has a coordinate above 500.  On a link that carries traffic up to
  501 metres their files end at coordinate 500, while the files of the other three models
  go on to coordinate 502, where the link is lost.
\<close>

theorem forced_stop_rule:
  "(d \<ge> 500 \<and> (model = FIXED_RSS \<or> model = NAKAGAMI) \<longrightarrow>
      \<not> connectionPossible (distance_body sim model d s)) \<and>
   (model = FIXED_RSS \<or> model = NAKAGAMI \<longrightarrow>
      (\<exists>s'. model_sweep sim model avg = Some s' \<and>
         (\<forall>r \<in> set (rows (outputFile s')). coordinate r \<le> 500))) \<and>
   (model = FIXED_RSS \<or> model = NAKAGAMI \<longrightarrow>
      map_option (map coordinate \<circ> rows \<circ> outputFile) (model_sweep (sim_reach 502) model avg) =
        Some (map real [1..<501])) \<and>
   (model \<noteq> FIXED_RSS \<and> model \<noteq> NAKAGAMI \<longrightarrow>
      map_option (map coordinate \<circ> rows \<circ> outputFile) (model_sweep (sim_reach 502) model avg) =
        Some (map real [1..<503]))"
proof (intro conjI impI)
  assume "d \<ge> 500 \<and> (model = FIXED_RSS \<or> model = NAKAGAMI)"
  then show "\<not> connectionPossible (distance_body sim model d s)"
    by (auto simp add: distance_body_connectionPossible)
next
  assume "model = FIXED_RSS \<or> model = NAKAGAMI"
  then show "\<exists>s'. model_sweep sim model avg = Some s' \<and>
         (\<forall>r \<in> set (rows (outputFile s')). coordinate r \<le> 500)"
    by (rule bounded_sweep)
next
  assume m: "model = FIXED_RSS \<or> model = NAKAGAMI"
  have "map_option (map coordinate \<circ> rows \<circ> outputFile) (model_sweep (sim_reach 502) model avg) =
        Some (map real [1..<Suc 500])"
    by (rule sim_reach_sweep) (use m in \<open>auto simp add: run_stops_sim_reach\<close>)
  then show "map_option (map coordinate \<circ> rows \<circ> outputFile)
      (model_sweep (sim_reach 502) model avg) = Some (map real [1..<501])"
    by simp
next
  assume m: "model \<noteq> FIXED_RSS \<and> model \<noteq> NAKAGAMI"
  have "map_option (map coordinate \<circ> rows \<circ> outputFile) (model_sweep (sim_reach 502) model avg) =
        Some (map real [1..<Suc 502])"
    by (rule sim_reach_sweep) (use m in \<open>auto simp add: run_stops_sim_reach\<close>)
  then show "map_option (map coordinate \<circ> rows \<circ> outputFile)
      (model_sweep (sim_reach 502) model avg) = Some (map real [1..<503])"
    by simp
qed

theorem forced_stop_rule_witness:
  "\<not> connectionPossible (distance_body (sim_reach 502) FIXED_RSS 500 (sweep_start FIXED_RSS 0)) \<and>
   map_option (map coordinate \<circ> rows \<circ> outputFile) (model_sweep (sim_reach 502) NAKAGAMI 0) =
     Some (map real [1..<501]) \<and>
   map_option (map coordinate \<circ> rows \<circ> outputFile) (model_sweep (sim_reach 502) FRIIS 0) =
     Some (map real [1..<503])"
  using forced_stop_rule [where model = FIXED_RSS and d = 500 and sim = "sim_reach 502"
      and s = "sweep_start FIXED_RSS 0" and avg = 0]
    forced_stop_rule [where model = NAKAGAMI and d = 500 and sim = "sim_reach 502"
      and s = "sweep_start FIXED_RSS 0" and avg = 0]
    forced_stop_rule [where model = FRIIS and d = 500 and sim = "sim_reach 502"
      and s = "sweep_start FIXED_RSS 0" and avg = 0]
  by simp

section \<open>The estimate is reset for every run\<close>

text \<open>
  Claim C6 (reset before run).  Both loop bodies set the estimate to 0 before the simulation
  runs, so the estimate after a run is the filter started from 0 on that run's frames,
  whatever value the state held before.  When no frame is received the estimate is 0, and
  every row the run appends has 0 in its RSS column.
\<close>

theorem reset_before_run:
  "averageRSS (distance_body sim model d s) =
     Simulator_Run (frames (sim (distance_scenario model d))) 0 \<and>
   averageRSS (runtime_body sim t s) = Simulator_Run (frames (sim (runtime_scenario t))) 0 \<and>
   (frames (sim (distance_scenario model d)) = [] \<longrightarrow>
      averageRSS (distance_body sim model d s) = 0 \<and>
      map rssDBm (appended s (distance_body sim model d s)) =
        replicate (length (flowStats (sim (distance_scenario model d)))) 0) \<and>
   (frames (sim (runtime_scenario t)) = [] \<longrightarrow>
      averageRSS (runtime_body sim t s) = 0 \<and>
      map rssDBm (appended s (runtime_body sim t s)) =
        replicate (length (flowStats (sim (runtime_scenario t)))) 0)"
  by (simp add: distance_body_averageRSS runtime_body_averageRSS appended_distance_body
      appended_runtime_body rows_of_run_def Simulator_Run_Nil o_def map_replicate_const)

theorem reset_before_run_witness:
  "averageRSS (distance_body (sim_reach 3) FRIIS 3 (sweep_start FRIIS (- 45))) = 0 \<and>
   map rssDBm (appended (sweep_start FRIIS (- 45))
     (distance_body (sim_reach 3) FRIIS 3 (sweep_start FRIIS (- 45)))) = [0] \<and>
   averageRSS (runtime_body (sim_reach 3) 1 (runtime_start\<lparr>averageRSS := - 45\<rparr>)) = 0 \<and>
   map rssDBm (appended (runtime_start\<lparr>averageRSS := - 45\<rparr>)
     (runtime_body (sim_reach 3) 1 (runtime_start\<lparr>averageRSS := - 45\<rparr>))) = [0]"
  using reset_before_run [where sim = "sim_reach 3" and model = FRIIS and d = 3 and t = 1
      and s = "sweep_start FRIIS (- 45)"]
    reset_before_run [where sim = "sim_reach 3" and model = FRIIS and d = 3 and t = 1
      and s = "runtime_start\<lparr>averageRSS := - 45\<rparr>"]
  by (simp add: sim_reach_def distance_scenario_def runtime_scenario_def distance_def)

section \<open>Rows per run\<close>

text \<open>
  A run with an empty flow table appends nothing, and a run with two flow entries appends
  two rows: the number of appends is not one per run.
\<close>

theorem one_append_per_run_counterexample:
  "length (appended runtime_start (runtime_body sim_silent 1 runtime_start)) = 0 \<and>
   length (appended (sweep_start FRIIS 0)
     (distance_body sim_two_flows FRIIS 1 (sweep_start FRIIS 0))) = 2"
  by (simp add: appended_distance_body appended_runtime_body rows_of_run_def sim_silent_def
      sim_two_flows_def)

text \<open>
  Claim C7 (one measurement per run), as the code has it.  A run appends one row per flow
  entry of its flow table; all rows of a run carry the run's coordinate and the single
  estimate the run ended with, each its own throughput.  A run whose flow table has exactly
  one entry appends exactly one row.
\<close>

theorem one_row_per_flow_entry:
  "length (appended s (distance_body sim model d s)) =
     length (flowStats (sim (distance_scenario model d))) \<and>
   map coordinate (appended s (distance_body sim model d s)) =
     replicate (length (flowStats (sim (distance_scenario model d)))) d \<and>
   map rssDBm (appended s (distance_body sim model d s)) =
     replicate (length (flowStats (sim (distance_scenario model d))))
       (averageRSS (distance_body sim model d s)) \<and>
   length (appended s (runtime_body sim t s)) =
     length (flowStats (sim (runtime_scenario t))) \<and>
   map coordinate (appended s (runtime_body sim t s)) =
     replicate (length (flowStats (sim (runtime_scenario t)))) t \<and>
   map rssDBm (appended s (runtime_body sim t s)) =
     replicate (length (flowStats (sim (runtime_scenario t))))
       (averageRSS (runtime_body sim t s)) \<and>
   (single_flow (sim (distance_scenario model d)) \<longrightarrow>
      length (appended s (distance_body sim model d s)) = 1) \<and>
   (single_flow (sim (runtime_scenario t)) \<longrightarrow>
      length (appended s (runtime_body sim t s)) = 1)"
  by (simp add: distance_body_averageRSS runtime_body_averageRSS appended_distance_body
      appended_runtime_body rows_of_run_def o_def map_replicate_const single_flow_def)

theorem one_row_per_flow_entry_witness:
  "length (appended (sweep_start FRIIS 0) (distance_body (sim_reach 3) FRIIS 1 (sweep_start FRIIS 0))) = 1 \<and>
   length (appended runtime_start (runtime_body (sim_reach 3) 1 runtime_start)) = 1"
  using one_row_per_flow_entry [where sim = "sim_reach 3" and model = FRIIS and d = 1
      and t = 1 and s = "sweep_start FRIIS 0"]
    one_row_per_flow_entry [where sim = "sim_reach 3" and model = FRIIS and d = 1
      and t = 1 and s = runtime_start]
  by (simp add: sim_reach_def single_flow_def)

section \<open>Scenario parameters\<close>

text \<open>
  In every run of the distance driver the quotient of the duration and the interval is
  9375000 / 29, which is no integer; the packet limit that is passed is 323275.
\<close>

theorem packet_limit_counterexample:
  "MaxPackets (distance_scenario FRIIS 1) = 323275 \<and>
   StopTime (distance_scenario FRIIS 1) / Interval (distance_scenario FRIIS 1) = 9375000 / 29 \<and>
   real (unat (MaxPackets (distance_scenario FRIIS 1))) \<noteq>
     StopTime (distance_scenario FRIIS 1) / Interval (distance_scenario FRIIS 1)"
  using packetLimit_distance
  by (simp add: distance_scenario_def interval_value simulationTime_def)

text \<open>
  Claim C9 (scenario builder arithmetic), as the code has it.  In every run of both drivers
  the client gets the same interval \<open>1 / (dataRate / (packetSize * 8))\<close> with a data rate
  of 75000000 bit/s and a packet size of 1450 bytes, and the packet limit is the quotient
  of the run's duration and the interval converted to \<^verbatim>\<open>uint64_t\<close>: the integer part of the
  quotient.  In the distance driver this is 323275 for every run.
\<close>

theorem scenario_arithmetic:
  "dataRate = 75000000 \<and> unat packetSize = 1450 \<and>
   interval = 1 / (dataRate / (real (unat packetSize) * 8)) \<and>
   Interval (distance_scenario model d) = interval \<and>
   Interval (runtime_scenario t) = interval \<and>
   PacketSize (distance_scenario model d) = packetSize \<and>
   PacketSize (runtime_scenario t) = packetSize \<and>
   StopTime (distance_scenario model d) = 50 \<and>
   StopTime (runtime_scenario t) = t \<and>
   MaxPackets (distance_scenario model d) =
     double_to_uint64 (StopTime (distance_scenario model d) / Interval (distance_scenario model d)) \<and>
   MaxPackets (runtime_scenario t) =
     double_to_uint64 (StopTime (runtime_scenario t) / Interval (runtime_scenario t)) \<and>
   int (unat (MaxPackets (distance_scenario model d))) =
     \<lfloor>StopTime (distance_scenario model d) / Interval (distance_scenario model d)\<rfloor> \<and>
   MaxPackets (distance_scenario model d) = 323275 \<and>
   (0 \<le> t \<and> t \<le> 200 \<longrightarrow>
      int (unat (MaxPackets (runtime_scenario t))) =
        \<lfloor>StopTime (runtime_scenario t) / Interval (runtime_scenario t)\<rfloor>)"
proof -
  have a: "int (unat (packetLimit simulationTime)) = \<lfloor>simulationTime / interval\<rfloor>"
    by (rule packetLimit_bracket) (simp_all add: simulationTime_def)
  have b: "0 \<le> t \<and> t \<le> 200 \<longrightarrow> int (unat (packetLimit t)) = \<lfloor>t / interval\<rfloor>"
    using packetLimit_bracket [of t] by blast
  have c: "interval = 1 / (dataRate / (real (unat packetSize) * 8))"
    by (simp add: interval_def packetSize_def)
  have d: "unat packetSize = 1450" by (simp add: packetSize_def)
  show ?thesis
    using a b c d packetLimit_distance
    by (simp add: distance_scenario_def runtime_scenario_def packetLimit_def dataRate_def
        simulationTime_def)
qed

theorem scenario_arithmetic_witness:
  "MaxPackets (runtime_scenario 29) = 187500 \<and>
   int (unat (MaxPackets (runtime_scenario 1))) = 6465"
  using scenario_arithmetic [where t = 29] scenario_arithmetic [where t = 1]
  by (simp add: double_to_uint64_def runtime_scenario_def interval_value)

section \<open>Runs with an empty flow table\<close>

text \<open>
  Claim C10 (no flow entry).  A run of the distance sweep clears the flag only for a flow
  entry without received bytes or by the bound on the distance.  A run whose flow table is
  empty appends no row and leaves the flag to the bound on the distance alone: unless the model is
  FixedRSS or Nakagami and the distance has reached 500, the flag stays as it was and the
  loop goes on with the next distance.  When every flow table is empty, the sweeps of
  FixedRSS and Nakagami end at 500 with no row written and the sweeps of the other three
  models never end.
\<close>

theorem zero_flow_entries:
  "connectionPossible (distance_body sim model d s) =
     (connectionPossible s \<and>
      \<not> ((\<exists>it \<in> set (flowStats (sim (distance_scenario model d))). rxBytes it = 0) \<or>
         (d \<ge> 500 \<and> (model = NAKAGAMI \<or> model = FIXED_RSS)))) \<and>
   (flowStats (sim (distance_scenario model d)) = [] \<longrightarrow>
      appended s (distance_body sim model d s) = [] \<and>
      rows (outputFile (distance_body sim model d s)) = rows (outputFile s) \<and>
      connectionPossible (distance_body sim model d s) =
        (connectionPossible s \<and> \<not> (d \<ge> 500 \<and> (model = NAKAGAMI \<or> model = FIXED_RSS))) \<and>
      (connectionPossible s \<and> \<not> (d \<ge> 500 \<and> (model = NAKAGAMI \<or> model = FIXED_RSS)) \<longrightarrow>
         connectionPossible (distance_body sim model d s) \<and>
         distance_loop sim model d s =
           distance_loop sim model (d + 1) (distance_body sim model d s))) \<and>
   ((\<forall>j. 1 \<le> j \<longrightarrow> flowStats (sim (distance_scenario model (real j))) = []) \<longrightarrow>
      map_option (rows \<circ> outputFile) (model_sweep sim model avg) =
        (if model = NAKAGAMI \<or> model = FIXED_RSS then Some [] else None))"
proof (intro conjI impI)
  show "connectionPossible (distance_body sim model d s) =
     (connectionPossible s \<and>
      \<not> ((\<exists>it \<in> set (flowStats (sim (distance_scenario model d))). rxBytes it = 0) \<or>
         (d \<ge> 500 \<and> (model = NAKAGAMI \<or> model = FIXED_RSS))))"
    using distance_body_stops [of sim model d s] by (simp only: run_stops_def)
next
  assume e: "flowStats (sim (distance_scenario model d)) = []"
  show "appended s (distance_body sim model d s) = []"
    using e by (simp add: appended_distance_body rows_of_run_def)
  show "rows (outputFile (distance_body sim model d s)) = rows (outputFile s)"
    using e by (simp add: distance_body_rows rows_of_run_def)
  show c: "connectionPossible (distance_body sim model d s) =
        (connectionPossible s \<and> \<not> (d \<ge> 500 \<and> (model = NAKAGAMI \<or> model = FIXED_RSS)))"
    using e by (simp add: distance_body_connectionPossible)
  assume go: "connectionPossible s \<and> \<not> (d \<ge> 500 \<and> (model = NAKAGAMI \<or> model = FIXED_RSS))"
  show "connectionPossible (distance_body sim model d s)"
    using c go by simp
  show "distance_loop sim model d s = distance_loop sim model (d + 1) (distance_body sim model d s)"
    using go by (subst distance_loop.simps) simp
next
  assume "\<forall>j. 1 \<le> j \<longrightarrow> flowStats (sim (distance_scenario model (real j))) = []"
  then show "map_option (rows \<circ> outputFile) (model_sweep sim model avg) =
        (if model = NAKAGAMI \<or> model = FIXED_RSS then Some [] else None)"
    by (rule empty_tables_sweep)
qed

theorem zero_flow_entries_witness:
  "rows (outputFile (distance_body sim_late FRIIS 1 (sweep_start FRIIS 0))) = [] \<and>
   connectionPossible (distance_body sim_late FRIIS 1 (sweep_start FRIIS 0)) \<and>
   distance_loop sim_late FRIIS 1 (sweep_start FRIIS 0) =
     distance_loop sim_late FRIIS (1 + 1) (distance_body sim_late FRIIS 1 (sweep_start FRIIS 0)) \<and>
   map_option (rows \<circ> outputFile) (model_sweep sim_silent FRIIS 0) = None \<and>
   map_option (rows \<circ> outputFile) (model_sweep sim_silent NAKAGAMI 0) = Some []"
  using zero_flow_entries [where sim = sim_late and model = FRIIS and d = 1
      and s = "sweep_start FRIIS 0", THEN conjunct2]
    zero_flow_entries [where sim = sim_silent and model = FRIIS and avg = 0, THEN conjunct2]
    zero_flow_entries [where sim = sim_silent and model = NAKAGAMI and avg = 0, THEN conjunct2]
  by (simp add: sim_late_def sim_silent_def distance_scenario_def sweep_start_simps)

end
